theory Spec2Isabelle
  imports Main "HOL-Library.Word" "HOL-Library.Log_Nat"
begin

section \<open>The ArvanCloud provider for libdns\<close>

text \<open>
  A shallow embedding of the Go package \<^verbatim>\<open>arvancloud\<close>: the record codec and the
  transport client of \<^verbatim>\<open>client.go\<close>, and the four operations of the provider
  (\<^verbatim>\<open>GetRecords\<close>, \<^verbatim>\<open>AppendRecords\<close>, \<^verbatim>\<open>SetRecords\<close>, \<^verbatim>\<open>DeleteRecords\<close>).

  Go strings are byte sequences and are modelled as \<^typ>\<open>string\<close>. A Go \<^verbatim>\<open>int\<close> and a
  \<^verbatim>\<open>time.Duration\<close> are modelled as \<^typ>\<open>int\<close>, with the 64-bit wrap-around written out
  where the code multiplies. A panic and a returned error are both values of the type
  \<open>error\<close>; a function that can fail returns \<open>error + 'a\<close>.
\<close>

subsection \<open>The functions of package \<^verbatim>\<open>strings\<close> that the code calls\<close>

definition dq :: char where
  "dq = CHR 0x22"

definition bslash :: char where
  "bslash = CHR 0x5C"

definition HasPrefix :: "string \<Rightarrow> string \<Rightarrow> bool" where
  "HasPrefix s p = (take (length p) s = p)"

definition HasSuffix :: "string \<Rightarrow> string \<Rightarrow> bool" where
  "HasSuffix s p = (length p \<le> length s \<and> drop (length s - length p) s = p)"

definition TrimPrefix :: "string \<Rightarrow> string \<Rightarrow> string" where
  "TrimPrefix s p = (if HasPrefix s p then drop (length p) s else s)"

definition TrimSuffix :: "string \<Rightarrow> string \<Rightarrow> string" where
  "TrimSuffix s p = (if HasSuffix s p then take (length s - length p) s else s)"

fun Contains :: "string \<Rightarrow> string \<Rightarrow> bool" where
  "Contains [] sub = (sub = [])"
| "Contains (c # cs) sub = (HasPrefix (c # cs) sub \<or> Contains cs sub)"

text \<open>
  \<^verbatim>\<open>strings.EqualFold\<close> compares under Unicode simple case folding. The names, type tags
  and JSON keys this package compares are ASCII; the model folds the ASCII letters and
  compares every other byte as it is.
\<close>

definition toLowerASCII :: "char \<Rightarrow> char" where
  "toLowerASCII c =
     (if 65 \<le> (of_char c :: nat) \<and> (of_char c :: nat) \<le> 90
      then char_of ((of_char c :: nat) + 32) else c)"

definition EqualFold :: "string \<Rightarrow> string \<Rightarrow> bool" where
  "EqualFold s t = (map toLowerASCII s = map toLowerASCII t)"

subsection \<open>Integers\<close>

definition inInt64 :: "int \<Rightarrow> bool" where
  "inInt64 n = (- (2 ^ 63) \<le> n \<and> n < 2 ^ 63)"

definition wrap64 :: "int \<Rightarrow> int" where
  "wrap64 n = (n + 2 ^ 63) mod 2 ^ 64 - 2 ^ 63"

text \<open>
  \<^verbatim>\<open>int(d.Seconds())\<close> for a duration \<open>d\<close> in nanoseconds. \<^verbatim>\<open>Seconds\<close> computes
  \<^verbatim>\<open>float64(sec) + float64(nsec)/1e9\<close> for the quotient and the remainder of \<open>d\<close> by a
  second (Go's division truncates towards zero); the conversion to \<^verbatim>\<open>int\<close> truncates
  towards zero. \<open>float64\<close> rounds a rational to the nearest number with a mantissa of 53
  bits, ties to the even mantissa, as each floating point operation does (the numbers
  met here are far from the ends of the exponent range).
\<close>

definition roundHalfEven :: "rat \<Rightarrow> int" where
  "roundHalfEven x =
     (let f = \<lfloor>x\<rfloor>; r = x - of_int f
      in if r < 1 / 2 then f
         else if 1 / 2 < r then f + 1
         else if even f then f else f + 1)"

definition log2floor :: "rat \<Rightarrow> int" where
  "log2floor a =
     (let g = bitlen (fst (quotient_of a)) - bitlen (snd (quotient_of a))
      in if power_int 2 g \<le> a then g else g - 1)"

definition float64 :: "rat \<Rightarrow> rat" where
  "float64 x =
     (if x = 0 then 0
      else let u = power_int 2 (log2floor \<bar>x\<bar> - 52);
               m = of_int (roundHalfEven (\<bar>x\<bar> / u)) * u
           in if x < 0 then - m else m)"

definition truncateToInt :: "rat \<Rightarrow> int" where
  "truncateToInt x = (if 0 \<le> x then \<lfloor>x\<rfloor> else - \<lfloor>- x\<rfloor>)"

definition quoInt :: "int \<Rightarrow> int \<Rightarrow> int" where
  "quoInt a b = (if 0 \<le> a then a div b else - ((- a) div b))"

definition Seconds :: "int \<Rightarrow> rat" where
  "Seconds d =
     (let sec = quoInt d 1000000000; nsec = d - sec * 1000000000
      in float64 (of_int sec + float64 (of_int nsec / 1000000000)))"

definition Seconds_int :: "int \<Rightarrow> int" where
  "Seconds_int d = truncateToInt (Seconds d)"

fun decimal :: "nat \<Rightarrow> string" where
  "decimal n =
     (if n < 10 then [char_of (48 + n)]
      else decimal (n div 10) @ [char_of (48 + n mod 10)])"

declare decimal.simps [simp del]

subsection \<open>The data model of \<^verbatim>\<open>client.go\<close>\<close>

record ARecordValue =
  a_IP :: string
  a_Port :: int
  a_Weight :: int
  a_Country :: string

record TXTRecordValue =
  txt_Text :: string

record MXRecordValue =
  mx_Host :: string
  mx_Priority :: "16 word"

record CNAMERecordValue =
  cname_Host :: string
  cname_HostHeader :: string
  cname_Port :: int

record SRVRecordValue =
  srv_Target :: string
  srv_Port :: "16 word"
  srv_Priority :: "16 word"
  srv_Weight :: "16 word"

record CAARecordValue =
  caa_Value :: string
  caa_Tag :: string

record NSRecordValue =
  ns_Host :: string

record IPFilter =
  Count :: string
  GeoFilter :: string
  Order :: string

text \<open>
  The field \<^verbatim>\<open>Value any\<close> of \<^verbatim>\<open>arDNSRecord\<close> holds a value of any dynamic type. Two
  families occur in this package.

  \<^item> What \<^verbatim>\<open>encoding/json\<close> stores when it decodes into an \<^verbatim>\<open>any\<close>: \<^verbatim>\<open>nil\<close>, \<^verbatim>\<open>bool\<close>,
    \<^verbatim>\<open>float64\<close>, \<^verbatim>\<open>string\<close>, \<^verbatim>\<open>[]any\<close> and \<^verbatim>\<open>map[string]any\<close>
    (\<open>ANil\<close>, \<open>ABool\<close>, \<open>AFloat64\<close>, \<open>AString\<close>, \<open>ASlice\<close>, \<open>AMap\<close>).
    A \<^verbatim>\<open>float64\<close> is kept as \<open>Some n\<close> when it is the whole number \<open>n\<close> and
    \<^verbatim>\<open>json.Marshal\<close> prints it as an integer literal, and as \<open>None\<close> otherwise.
    A map is kept as its pairs in the order \<^verbatim>\<open>json.Marshal\<close> writes them (sorted keys).
  \<^item> The struct values the package itself stores: one of the \<^verbatim>\<open>...RecordValue\<close> structs
    (\<^verbatim>\<open>arvancloudRecord\<close>) or a \<^verbatim>\<open>[]ARecordValue\<close> (\<^verbatim>\<open>DeleteRecords\<close>).
\<close>

datatype goany =
    ANil
  | ABool bool
  | AFloat64 "int option"
  | AString string
  | ASlice "goany list"
  | AMap "(string \<times> goany) list"
  | VARecord ARecordValue
  | VTXT TXTRecordValue
  | VMX MXRecordValue
  | VCNAME CNAMERecordValue
  | VSRV SRVRecordValue
  | VCAA CAARecordValue
  | VNS NSRecordValue
  | VARecords "ARecordValue list"

record arDNSRecord =
  ID :: string
  Type :: string
  Name :: string
  Value :: goany
  TTL :: int
  Cloud :: bool
  IsProtected :: bool
  UpstreamHTTPS :: string
  IPFilterMode :: "IPFilter option"

record arMeta =
  meta_CurrentPage :: int
  meta_From :: int
  meta_LastPage :: int
  meta_Path :: string
  meta_PerPage :: int
  meta_To :: int
  meta_Total :: int

record arLinks =
  links_First :: string
  links_Last :: string
  links_Prev :: string
  links_Next :: string

record arResponse =
  resp_Data :: string
  resp_Status :: bool
  resp_Errors :: "string list"
  resp_Message :: string
  resp_Links :: "arLinks option"
  resp_Meta :: "arMeta option"

record paginatedResponse =
  pg_Data :: "arDNSRecord list"
  pg_Next :: "string option"
  pg_CurrentPage :: int
  pg_LastPage :: int

subsection \<open>The generic records of libdns\<close>

text \<open>
  \<^verbatim>\<open>libdns.Record\<close> is an interface; its implementations are the structs below. A
  \<^verbatim>\<open>ServiceBinding\<close> is kept as its \<^verbatim>\<open>RR()\<close> projection, the only thing this package
  reads of it. The fields are, in order: \<open>Address\<close> name, TTL, IP; \<open>CAA\<close> name, TTL,
  flags, tag, value; \<open>CNAME\<close> name, TTL, target; \<open>MX\<close> name, TTL, preference, target;
  \<open>NS\<close> name, TTL, target; \<open>SRV\<close> service, transport, name, TTL, priority, weight, port,
  target; \<open>TXT\<close> name, TTL, text.
\<close>

record RR =
  rr_Name :: string
  rr_TTL :: int
  rr_Type :: string
  rr_Data :: string

datatype 'ip Record =
    Address string int 'ip
  | CAA string int "8 word" string string
  | CNAME string int string
  | MX string int "16 word" string
  | NS string int string
  | SRV string string string int "16 word" "16 word" "16 word" string
  | TXT string int string
  | ServiceBinding RR
  | RawRR RR

datatype error =
    PanicTypeAssertion
  | InvalidIPAddress string
  | ParsingRecord error
  | RRParseError string
  | TransportError string
  | DecodeError string
  | APIError int string
  | GotErrors int "string list"

subsection \<open>The libraries the package is linked with\<close>

text \<open>
  The standard library and libdns are not part of the repository. What the code calls of
  them, and what is not a plain function of bytes written out above, is a parameter \<open>L\<close>
  of the model:

  \<^item> \<open>Sprintf_q s\<close> is \<^verbatim>\<open>fmt.Sprintf("%q", s)\<close>;
  \<^item> \<open>ParseAddr\<close>, \<open>Addr_String\<close>, \<open>Addr_Is6\<close> are \<^verbatim>\<open>netip.ParseAddr\<close> and the methods
    \<^verbatim>\<open>String\<close> and \<^verbatim>\<open>Is6\<close> of \<^verbatim>\<open>netip.Addr\<close> (the type \<open>'ip\<close>);
  \<^item> \<open>AbsoluteName\<close> and \<open>RelativeName\<close> are the libdns helpers of these names;
  \<^item> \<open>SRV_Name service transport name\<close> is the name \<^verbatim>\<open>libdns.SRV.RR()\<close> reports;
  \<^item> \<open>Fallback name ttl type value\<close> is the default arm of \<^verbatim>\<open>toLibDNSRecord\<close> after its
    type assertion: the JSON text \<open>value\<close> is flattened (in Go's map iteration order)
    and handed to \<^verbatim>\<open>libdns.RR.Parse\<close>;
  \<^item> \<open>Decode body\<close> is \<^verbatim>\<open>json.NewDecoder(body).Decode(&respData)\<close> on a response body
    holding the bytes \<open>body\<close>: the decoded envelope or the decoder's error, and the
    bytes the decoder has left unread in the body.
\<close>

record 'ip golib =
  Sprintf_q :: "string \<Rightarrow> string"
  ParseAddr :: "string \<Rightarrow> 'ip option"
  Addr_String :: "'ip \<Rightarrow> string"
  Addr_Is6 :: "'ip \<Rightarrow> bool"
  AbsoluteName :: "string \<Rightarrow> string \<Rightarrow> string"
  RelativeName :: "string \<Rightarrow> string \<Rightarrow> string"
  SRV_Name :: "string \<Rightarrow> string \<Rightarrow> string \<Rightarrow> string"
  Fallback :: "string \<Rightarrow> int \<Rightarrow> string \<Rightarrow> string \<Rightarrow> error + 'ip Record"
  Decode :: "string \<Rightarrow> (error + arResponse) \<times> string"

subsection \<open>The TXT quote helpers\<close>

definition unwrapContent :: "string \<Rightarrow> string" where
  "unwrapContent content =
     (if HasPrefix content [dq] \<and> HasSuffix content [dq]
      then TrimPrefix (TrimSuffix content [dq]) [dq]
      else content)"

definition wrapContent :: "'ip golib \<Rightarrow> string \<Rightarrow> string" where
  "wrapContent L content =
     (if \<not> HasPrefix content [dq] \<and> \<not> HasSuffix content [dq]
      then Sprintf_q L content
      else content)"

subsection \<open>The record codec\<close>

text \<open>The method \<^verbatim>\<open>RR()\<close> of each libdns record type.\<close>

fun RR_of :: "'ip golib \<Rightarrow> 'ip Record \<Rightarrow> RR" where
  "RR_of L (Address name ttl ip) =
     \<lparr>rr_Name = name, rr_TTL = ttl,
      rr_Type = (if Addr_Is6 L ip then ''AAAA'' else ''A''),
      rr_Data = Addr_String L ip\<rparr>"
| "RR_of L (CAA name ttl flags tag val) =
     \<lparr>rr_Name = name, rr_TTL = ttl, rr_Type = ''CAA'',
      rr_Data = decimal (unat flags) @ '' '' @ tag @ '' '' @ Sprintf_q L val\<rparr>"
| "RR_of L (CNAME name ttl target) =
     \<lparr>rr_Name = name, rr_TTL = ttl, rr_Type = ''CNAME'', rr_Data = target\<rparr>"
| "RR_of L (MX name ttl preference target) =
     \<lparr>rr_Name = name, rr_TTL = ttl, rr_Type = ''MX'',
      rr_Data = decimal (unat preference) @ '' '' @ target\<rparr>"
| "RR_of L (NS name ttl target) =
     \<lparr>rr_Name = name, rr_TTL = ttl, rr_Type = ''NS'', rr_Data = target\<rparr>"
| "RR_of L (SRV service transport name ttl priority weight port target) =
     \<lparr>rr_Name = SRV_Name L service transport name, rr_TTL = ttl, rr_Type = ''SRV'',
      rr_Data = decimal (unat priority) @ '' '' @ decimal (unat weight) @ '' ''
                @ decimal (unat port) @ '' '' @ target\<rparr>"
| "RR_of L (TXT name ttl txt) =
     \<lparr>rr_Name = name, rr_TTL = ttl, rr_Type = ''TXT'', rr_Data = txt\<rparr>"
| "RR_of L (ServiceBinding rr) = rr"
| "RR_of L (RawRR rr) = rr"

text \<open>
  \<^verbatim>\<open>toLibDNSRecord\<close>. A type assertion \<^verbatim>\<open>r.Value.(T)\<close> to a struct type \<open>T\<close> yields the
  struct when the dynamic type of the value is \<open>T\<close> and panics on every other value,
  \<^verbatim>\<open>nil\<close> included.
\<close>

definition toLibDNSRecord :: "'ip golib \<Rightarrow> arDNSRecord \<Rightarrow> string \<Rightarrow> error + 'ip Record" where
  "toLibDNSRecord L r zone =
     (let name = RelativeName L (Name r) zone;
          ttl = wrap64 (TTL r * 1000000000)
      in if Type r = ''A'' \<or> Type r = ''AAAA'' then
           (case Value r of
              VARecord v \<Rightarrow>
                (case ParseAddr L (a_IP v) of
                   None \<Rightarrow> Inl (InvalidIPAddress (a_IP v))
                 | Some addr \<Rightarrow> Inr (Address name ttl addr))
            | _ \<Rightarrow> Inl PanicTypeAssertion)
         else if Type r = ''CAA'' then
           (case Value r of
              VCAA v \<Rightarrow> Inr (CAA name ttl 0 (caa_Tag v) (caa_Value v))
            | _ \<Rightarrow> Inl PanicTypeAssertion)
         else if Type r = ''CNAME'' then
           (case Value r of
              VCNAME v \<Rightarrow> Inr (CNAME name ttl (cname_Host v))
            | _ \<Rightarrow> Inl PanicTypeAssertion)
         else if Type r = ''MX'' then
           (case Value r of
              VMX v \<Rightarrow> Inr (MX name ttl (mx_Priority v) (mx_Host v))
            | _ \<Rightarrow> Inl PanicTypeAssertion)
         else if Type r = ''NS'' then
           (case Value r of
              VNS v \<Rightarrow> Inr (NS name ttl (ns_Host v))
            | _ \<Rightarrow> Inl PanicTypeAssertion)
         else if Type r = ''SRV'' then
           (case Value r of
              VSRV v \<Rightarrow>
                Inr (SRV [] [] name ttl (srv_Priority v) (srv_Weight v) (srv_Port v)
                       (srv_Target v))
            | _ \<Rightarrow> Inl PanicTypeAssertion)
         else if Type r = ''TXT'' then
           (case Value r of
              VTXT v \<Rightarrow> Inr (TXT name ttl (unwrapContent (txt_Text v)))
            | _ \<Rightarrow> Inl PanicTypeAssertion)
         else
           (case Value r of
              AString s \<Rightarrow> Fallback L name ttl (Type r) s
            | _ \<Rightarrow> Inl PanicTypeAssertion))"

text \<open>
  \<^verbatim>\<open>arvancloudRecord\<close>. Its error result is \<^verbatim>\<open>nil\<close> on every path, so the model returns
  the record. A record type without an arm of the type switch (\<^verbatim>\<open>ServiceBinding\<close>,
  \<^verbatim>\<open>RR\<close>) leaves \<^verbatim>\<open>Value\<close> \<^verbatim>\<open>nil\<close>.
\<close>

definition arvancloudRecord :: "'ip golib \<Rightarrow> 'ip Record \<Rightarrow> arDNSRecord" where
  "arvancloudRecord L r =
     (let rr = RR_of L r;
          arRec = \<lparr>ID = [], Type = rr_Type rr, Name = rr_Name rr, Value = ANil,
                   TTL = Seconds_int (rr_TTL rr), Cloud = False, IsProtected = False,
                   UpstreamHTTPS = [], IPFilterMode = None\<rparr>
      in case r of
           Address name ttl ip \<Rightarrow>
             arRec\<lparr>Value := VARecord \<lparr>a_IP = Addr_String L ip, a_Port = 0, a_Weight = 0,
                                        a_Country = []\<rparr>\<rparr>
         | CNAME name ttl target \<Rightarrow>
             arRec\<lparr>Value := VCNAME \<lparr>cname_Host = target, cname_HostHeader = [],
                                      cname_Port = 0\<rparr>\<rparr>
         | NS name ttl target \<Rightarrow> arRec\<lparr>Value := VNS \<lparr>ns_Host = target\<rparr>\<rparr>
         | CAA name ttl flags tag val \<Rightarrow>
             arRec\<lparr>Value := VCAA \<lparr>caa_Value = val, caa_Tag = tag\<rparr>\<rparr>
         | MX name ttl preference target \<Rightarrow>
             arRec\<lparr>Value := VMX \<lparr>mx_Host = target, mx_Priority = preference\<rparr>\<rparr>
         | SRV service transport name ttl priority weight port target \<Rightarrow>
             arRec\<lparr>Value := VSRV \<lparr>srv_Target = target, srv_Port = port,
                                    srv_Priority = priority, srv_Weight = weight\<rparr>\<rparr>
         | TXT name ttl txt \<Rightarrow> arRec\<lparr>Value := VTXT \<lparr>txt_Text = wrapContent L txt\<rparr>\<rparr>
         | ServiceBinding rr' \<Rightarrow> arRec
         | RawRR rr' \<Rightarrow> arRec)"

subsection \<open>The record locator\<close>

text \<open>
  \<^verbatim>\<open>findExistingRecord\<close> returns \<^verbatim>\<open>&records[i]\<close> for the first matching \<open>i\<close>, or
  \<^verbatim>\<open>nil\<close>: the model returns the index. \<open>normalizeRecordName\<close> is the body of the
  loop up to the comparison.
\<close>

definition normalizeRecordName :: "string \<Rightarrow> string \<Rightarrow> string" where
  "normalizeRecordName recordName zone =
     TrimSuffix
       (if \<not> Contains recordName zone \<and> recordName \<noteq> ''@''
        then (if recordName = ''@'' then zone else recordName @ ''.'' @ zone)
        else recordName)
       ''.''"

fun findFrom :: "nat \<Rightarrow> arDNSRecord list \<Rightarrow> string \<Rightarrow> string \<Rightarrow> string \<Rightarrow> nat option" where
  "findFrom i [] searchName rType zone = None"
| "findFrom i (r # rs) searchName rType zone =
     (if EqualFold (normalizeRecordName (Name r) zone) searchName \<and> EqualFold (Type r) rType
      then Some i
      else findFrom (Suc i) rs searchName rType zone)"

definition findExistingRecord ::
  "'ip golib \<Rightarrow> arDNSRecord list \<Rightarrow> string \<Rightarrow> string \<Rightarrow> string \<Rightarrow> nat option" where
  "findExistingRecord L records name rType zone =
     findFrom 0 records (AbsoluteName L name zone) rType zone"

subsection \<open>The transport client\<close>

text \<open>
  \<^verbatim>\<open>client.do\<close>. The argument \<open>sent\<close> is what \<^verbatim>\<open>httpClient.Do\<close> returned: an error or a
  response with its status code and the bytes of its body. \<open>result\<close> is the value behind
  the pointer \<^verbatim>\<open>result\<close> (\<open>None\<close> for a \<^verbatim>\<open>nil\<close> pointer) and \<open>unmarshal\<close> is
  \<^verbatim>\<open>json.Unmarshal\<close> at its type. The body is a stream: \<^verbatim>\<open>io.ReadAll(resp.Body)\<close>
  returns the bytes that the decoder has left unread.
\<close>

record http_response =
  StatusCode :: int
  Body :: string

definition client_do ::
  "'ip golib \<Rightarrow> (string \<Rightarrow> 'r \<Rightarrow> error + 'r) \<Rightarrow> error + http_response \<Rightarrow> 'r option
     \<Rightarrow> error + (arResponse \<times> 'r option)" where
  "client_do L unmarshal sent result =
     (case sent of
        Inl err \<Rightarrow> Inl err
      | Inr resp \<Rightarrow>
          (case Decode L (Body resp) of
             (Inl err, unread) \<Rightarrow> Inl err
           | (Inr respData, unread) \<Rightarrow>
               if StatusCode resp \<ge> 400 then Inl (APIError (StatusCode resp) unread)
               else if length (resp_Errors respData) > 0
                 then Inl (GotErrors (StatusCode resp) (resp_Errors respData))
               else if length (resp_Data respData) > 0
                 then (case result of
                         None \<Rightarrow> Inr (respData, None)
                       | Some target \<Rightarrow>
                           (case unmarshal (resp_Data respData) target of
                              Inl err \<Rightarrow> Inl err
                            | Inr v \<Rightarrow> Inr (respData, Some v)))
               else Inr (respData, result)))"

text \<open>
  The text of an error, as \<^verbatim>\<open>fmt.Errorf("API error %d: %s", status, body)\<close> builds it
  (the other errors are the libraries' own, and their text is not modelled).
\<close>

definition showInt :: "int \<Rightarrow> string" where
  "showInt n = (if n < 0 then CHR ''-'' # decimal (nat (- n)) else decimal (nat n))"

definition APIErrorText :: "int \<Rightarrow> string \<Rightarrow> string" where
  "APIErrorText status body = ''API error '' @ showInt status @ '': '' @ body"

text \<open>
  \<^verbatim>\<open>newRequest\<close> writes \<^verbatim>\<open>json.Marshal(payload)\<close> as the body of the request. The
  payloads of this package are \<^verbatim>\<open>nil\<close> (listing, deleting), an \<^verbatim>\<open>arDNSRecord\<close>
  (\<^verbatim>\<open>updateRecord\<close>) and, in \<^verbatim>\<open>createRecord\<close>, a \<^verbatim>\<open>*bytes.Reader\<close> over the JSON of
  the record. A \<^verbatim>\<open>bytes.Reader\<close> is a struct without an exported field, so
  \<^verbatim>\<open>json.Marshal\<close> writes it as the empty object \<^verbatim>\<open>{}\<close>, whatever bytes it reads.
\<close>

datatype payload =
    NilPayload
  | RecordPayload arDNSRecord
  | ReaderPayload arDNSRecord

datatype body =
    NoBody
  | RecordJSON arDNSRecord
  | EmptyObject

fun newRequest_body :: "payload \<Rightarrow> body" where
  "newRequest_body NilPayload = NoBody"
| "newRequest_body (RecordPayload r) = RecordJSON r"
| "newRequest_body (ReaderPayload r) = EmptyObject"

text \<open>
  The provider behind the client. Each field gives what one client method gets back for
  its request (the outcome of \<^verbatim>\<open>do\<close>, decoded into the method's result variable) and
  the provider's next state \<open>'w\<close>. A creation is asked for with the body of its
  request; an update with the record that \<^verbatim>\<open>newRequest\<close> writes as the body. The state
  of a call is the provider's state and the list of the requests made so far.
\<close>

record 'w server =
  sv_list :: "'w \<Rightarrow> string \<Rightarrow> int \<Rightarrow> (error + paginatedResponse) \<times> 'w"
  sv_create :: "'w \<Rightarrow> string \<Rightarrow> body \<Rightarrow> (error + arDNSRecord) \<times> 'w"
  sv_delete :: "'w \<Rightarrow> string \<Rightarrow> string \<Rightarrow> (error + arDNSRecord) \<times> 'w"
  sv_update :: "'w \<Rightarrow> string \<Rightarrow> string \<Rightarrow> arDNSRecord \<Rightarrow> (error + arDNSRecord) \<times> 'w"

datatype call =
    ListCall string int
  | CreateCall string body
  | DeleteCall string string
  | UpdateCall string string arDNSRecord

record 'w state =
  world :: 'w
  calls :: "call list"

definition getPage ::
  "'w server \<Rightarrow> string \<Rightarrow> int \<Rightarrow> 'w state \<Rightarrow> (error + paginatedResponse) \<times> 'w state" where
  "getPage S zone page st =
     (case sv_list S (world st) zone page of
        (r, w) \<Rightarrow> (r, \<lparr>world = w, calls = calls st @ [ListCall zone page]\<rparr>))"

text \<open>
  \<^verbatim>\<open>client.getRecords\<close>: the loop over the pages ends when the provider says so, and
  not at all when it never does; \<open>None\<close> is a listing that does not return.
\<close>

partial_function (option) getRecords_loop ::
  "'w server \<Rightarrow> string \<Rightarrow> int \<Rightarrow> arDNSRecord list \<Rightarrow> 'w state
     \<Rightarrow> ((error + arDNSRecord list) \<times> 'w state) option" where
  "getRecords_loop S zone page records st =
     (case getPage S zone page st of
        (Inl err, st') \<Rightarrow> Some (Inl err, st')
      | (Inr resp, st') \<Rightarrow>
          (if pg_Next resp = None \<or> pg_CurrentPage resp \<ge> pg_LastPage resp
           then Some (Inr (records @ pg_Data resp), st')
           else getRecords_loop S zone (page + 1) (records @ pg_Data resp) st'))"

declare getRecords_loop.simps [code]

definition getRecords ::
  "'w server \<Rightarrow> string \<Rightarrow> 'w state \<Rightarrow> ((error + arDNSRecord list) \<times> 'w state) option" where
  "getRecords S zone st = getRecords_loop S zone 1 [] st"

text \<open>
  \<^verbatim>\<open>createRecord\<close> translates the record, marshals it, and hands \<^verbatim>\<open>newRequest\<close> a
  \<^verbatim>\<open>bytes.Reader\<close> over these bytes as the payload.
\<close>

definition createRecord ::
  "'ip golib \<Rightarrow> 'w server \<Rightarrow> string \<Rightarrow> 'ip Record \<Rightarrow> 'w state
     \<Rightarrow> (error + arDNSRecord) \<times> 'w state" where
  "createRecord L S zone record st =
     (let arRec = arvancloudRecord L record;
          sent = newRequest_body (ReaderPayload arRec)
      in case sv_create S (world st) zone sent of
           (r, w) \<Rightarrow> (r, \<lparr>world = w, calls = calls st @ [CreateCall zone sent]\<rparr>))"

definition deleteRecord ::
  "'w server \<Rightarrow> string \<Rightarrow> string \<Rightarrow> 'w state \<Rightarrow> (error + arDNSRecord) \<times> 'w state" where
  "deleteRecord S zone recordID st =
     (case sv_delete S (world st) zone recordID of
        (r, w) \<Rightarrow> (r, \<lparr>world = w, calls = calls st @ [DeleteCall zone recordID]\<rparr>))"

definition updateRecord ::
  "'w server \<Rightarrow> string \<Rightarrow> string \<Rightarrow> arDNSRecord \<Rightarrow> 'w state
     \<Rightarrow> (error + arDNSRecord) \<times> 'w state" where
  "updateRecord S zone recordID record st =
     (case sv_update S (world st) zone recordID record of
        (r, w) \<Rightarrow> (r, \<lparr>world = w, calls = calls st @ [UpdateCall zone recordID record]\<rparr>))"

subsection \<open>The provider\<close>

text \<open>
  The lazy creation of the client under the mutex has no effect on what the four
  operations do and is left out. A panic leaves the operation as an error does; only an
  error is wrapped by \<^verbatim>\<open>fmt.Errorf\<close>.
\<close>

definition wrapParsing :: "error \<Rightarrow> error" where
  "wrapParsing err = (if err = PanicTypeAssertion then err else ParsingRecord err)"

fun translateAll ::
  "'ip golib \<Rightarrow> string \<Rightarrow> arDNSRecord list \<Rightarrow> 'ip Record list \<Rightarrow> error + 'ip Record list" where
  "translateAll L zone [] records = Inr records"
| "translateAll L zone (ar # ars) records =
     (case toLibDNSRecord L ar zone of
        Inl err \<Rightarrow> Inl err
      | Inr libRecord \<Rightarrow> translateAll L zone ars (records @ [libRecord]))"

definition GetRecords ::
  "'ip golib \<Rightarrow> 'w server \<Rightarrow> string \<Rightarrow> 'w state
     \<Rightarrow> ((error + 'ip Record list) \<times> 'w state) option" where
  "GetRecords L S zone st =
     (case getRecords S zone st of
        None \<Rightarrow> None
      | Some (Inl err, st') \<Rightarrow> Some (Inl err, st')
      | Some (Inr arvanRecords, st') \<Rightarrow> Some (translateAll L zone arvanRecords [], st'))"

fun AppendRecords_loop ::
  "'ip golib \<Rightarrow> 'w server \<Rightarrow> string \<Rightarrow> 'ip Record list \<Rightarrow> 'ip Record list \<Rightarrow> 'w state
     \<Rightarrow> (error + 'ip Record list) \<times> 'w state" where
  "AppendRecords_loop L S zone [] addedRecords st = (Inr addedRecords, st)"
| "AppendRecords_loop L S zone (r # rs) addedRecords st =
     (case createRecord L S zone r st of
        (Inl err, st') \<Rightarrow> (Inl err, st')
      | (Inr result, st') \<Rightarrow>
          (case toLibDNSRecord L result zone of
             Inl err \<Rightarrow> (Inl (wrapParsing err), st')
           | Inr libRecord \<Rightarrow> AppendRecords_loop L S zone rs (addedRecords @ [libRecord]) st'))"

definition AppendRecords ::
  "'ip golib \<Rightarrow> 'w server \<Rightarrow> string \<Rightarrow> 'ip Record list \<Rightarrow> 'w state
     \<Rightarrow> (error + 'ip Record list) \<times> 'w state" where
  "AppendRecords L S zone records st = AppendRecords_loop L S zone records [] st"

text \<open>
  \<^verbatim>\<open>SetRecords\<close>: the loop looks every input up in the listing fetched at the start,
  which the deletions do not change.
\<close>

fun SetRecords_loop ::
  "'ip golib \<Rightarrow> 'w server \<Rightarrow> string \<Rightarrow> arDNSRecord list \<Rightarrow> 'ip Record list \<Rightarrow> 'w state
     \<Rightarrow> (error + unit) \<times> 'w state" where
  "SetRecords_loop L S zone existingRecords [] st = (Inr (), st)"
| "SetRecords_loop L S zone existingRecords (r # rs) st =
     (case findExistingRecord L existingRecords (rr_Name (RR_of L r)) (rr_Type (RR_of L r)) zone of
        None \<Rightarrow> SetRecords_loop L S zone existingRecords rs st
      | Some i \<Rightarrow>
          (case deleteRecord S zone (ID (existingRecords ! i)) st of
             (Inl err, st') \<Rightarrow> (Inl err, st')
           | (Inr result, st') \<Rightarrow> SetRecords_loop L S zone existingRecords rs st'))"

definition SetRecords ::
  "'ip golib \<Rightarrow> 'w server \<Rightarrow> string \<Rightarrow> 'ip Record list \<Rightarrow> 'w state
     \<Rightarrow> ((error + 'ip Record list) \<times> 'w state) option" where
  "SetRecords L S zone records st =
     (case getRecords S zone st of
        None \<Rightarrow> None
      | Some (Inl err, st') \<Rightarrow> Some (Inl err, st')
      | Some (Inr existingRecords, st') \<Rightarrow>
          (case SetRecords_loop L S zone existingRecords records st' of
             (Inl err, st'') \<Rightarrow> Some (Inl err, st'')
           | (Inr u, st'') \<Rightarrow> Some (AppendRecords L S zone records st'')))"

text \<open>
  \<^verbatim>\<open>DeleteRecords\<close> reads the IP entries of an existing A/AAAA record with
  \<^verbatim>\<open>json.Marshal\<close> followed by \<^verbatim>\<open>json.Unmarshal\<close> into a \<^verbatim>\<open>[]ARecordValue\<close>, and drops
  both errors. \<open>decodeARecordValues\<close> is the slice the two calls leave behind.
  \<^verbatim>\<open>Unmarshal\<close> fills what it can and reports the first mismatch at the end: a value
  that is not an array leaves the slice \<^verbatim>\<open>nil\<close>; an array gives one entry per element;
  an element that is not an object gives a zero entry; a member of an object is stored in
  the field whose name equals its key up to case when its value fits the field's type,
  and skipped otherwise (\<^verbatim>\<open>null\<close> is skipped too).
\<close>

definition zeroARecordValue :: ARecordValue where
  "zeroARecordValue = \<lparr>a_IP = [], a_Port = 0, a_Weight = 0, a_Country = []\<rparr>"

fun storeMember :: "ARecordValue \<Rightarrow> string \<times> goany \<Rightarrow> ARecordValue" where
  "storeMember v (key, x) =
     (if EqualFold key ''ip'' then
        (case x of AString s \<Rightarrow> v\<lparr>a_IP := s\<rparr> | _ \<Rightarrow> v)
      else if EqualFold key ''port'' then
        (case x of AFloat64 (Some n) \<Rightarrow> (if inInt64 n then v\<lparr>a_Port := n\<rparr> else v) | _ \<Rightarrow> v)
      else if EqualFold key ''weight'' then
        (case x of AFloat64 (Some n) \<Rightarrow> (if inInt64 n then v\<lparr>a_Weight := n\<rparr> else v) | _ \<Rightarrow> v)
      else if EqualFold key ''country'' then
        (case x of AString s \<Rightarrow> v\<lparr>a_Country := s\<rparr> | _ \<Rightarrow> v)
      else v)"

fun decodeARecordValue :: "goany \<Rightarrow> ARecordValue" where
  "decodeARecordValue (AMap members) = foldl storeMember zeroARecordValue members"
| "decodeARecordValue (VARecord v) = v"
| "decodeARecordValue x = zeroARecordValue"

fun decodeARecordValues :: "goany \<Rightarrow> ARecordValue list" where
  "decodeARecordValues (ASlice xs) = map decodeARecordValue xs"
| "decodeARecordValues (VARecords vs) = vs"
| "decodeARecordValues x = []"

text \<open>
  Whether \<^verbatim>\<open>json.Unmarshal\<close> reports an error for the value (the error that
  \<^verbatim>\<open>DeleteRecords\<close> drops): some value met on the way does not fit its target.
\<close>

fun memberMismatch :: "string \<times> goany \<Rightarrow> bool" where
  "memberMismatch (key, x) =
     (if EqualFold key ''ip'' \<or> EqualFold key ''country'' then
        (case x of AString s \<Rightarrow> False | ANil \<Rightarrow> False | _ \<Rightarrow> True)
      else if EqualFold key ''port'' \<or> EqualFold key ''weight'' then
        (case x of AFloat64 (Some n) \<Rightarrow> \<not> inInt64 n | ANil \<Rightarrow> False | _ \<Rightarrow> True)
      else False)"

fun elementMismatch :: "goany \<Rightarrow> bool" where
  "elementMismatch (AMap members) = list_ex memberMismatch members"
| "elementMismatch (VARecord v) = False"
| "elementMismatch ANil = False"
| "elementMismatch x = True"

fun unmarshalError :: "goany \<Rightarrow> bool" where
  "unmarshalError (ASlice xs) = list_ex elementMismatch xs"
| "unmarshalError (VARecords vs) = False"
| "unmarshalError ANil = False"
| "unmarshalError x = True"

text \<open>The loop over \<^verbatim>\<open>currentVals\<close>: the entries kept, and whether one was dropped.\<close>

fun removeIP ::
  "string \<Rightarrow> ARecordValue list \<Rightarrow> ARecordValue list \<Rightarrow> bool \<Rightarrow> ARecordValue list \<times> bool" where
  "removeIP data [] newVals found = (newVals, found)"
| "removeIP data (v # vs) newVals found =
     (if a_IP v = data then removeIP data vs newVals True
      else removeIP data vs (newVals @ [v]) found)"

text \<open>
  The body of the loop of \<^verbatim>\<open>DeleteRecords\<close> for one input \<open>r\<close>. \<open>existing\<close> points into
  \<open>existingRecords\<close>, so the assignment \<^verbatim>\<open>existing.Value = newVals\<close> changes the listing
  that the later inputs are looked up in. \<open>Inr\<close> carries on with the next input.
\<close>

definition DeleteRecords_step ::
  "'ip golib \<Rightarrow> 'w server \<Rightarrow> string \<Rightarrow> 'ip Record
     \<Rightarrow> arDNSRecord list \<Rightarrow> 'ip Record list \<Rightarrow> 'w state
     \<Rightarrow> (error + (arDNSRecord list \<times> 'ip Record list)) \<times> 'w state" where
  "DeleteRecords_step L S zone r existingRecords deletedRecords st =
     (case findExistingRecord L existingRecords (rr_Name (RR_of L r)) (rr_Type (RR_of L r)) zone of
        None \<Rightarrow> (Inr (existingRecords, deletedRecords), st)
      | Some i \<Rightarrow>
          if rr_Type (RR_of L r) = ''A'' \<or> rr_Type (RR_of L r) = ''AAAA'' then
            (case removeIP (rr_Data (RR_of L r))
                    (decodeARecordValues (Value (existingRecords ! i))) [] False of
               (newVals, found) \<Rightarrow>
                 if found then
                   if length newVals = 0 then
                     (case deleteRecord S zone (ID (existingRecords ! i)) st of
                        (Inl err, st') \<Rightarrow> (Inl err, st')
                      | (Inr result, st') \<Rightarrow>
                          (case toLibDNSRecord L result zone of
                             Inl err \<Rightarrow> (Inl (wrapParsing err), st')
                           | Inr libRecord \<Rightarrow>
                               (Inr (existingRecords, deletedRecords @ [libRecord]), st')))
                   else
                     (let existing = (existingRecords ! i)\<lparr>Value := VARecords newVals\<rparr>;
                          existingRecords' = existingRecords[i := existing]
                      in case updateRecord S zone (ID existing) existing st of
                           (Inl err, st') \<Rightarrow> (Inl err, st')
                         | (Inr result, st') \<Rightarrow>
                             (case toLibDNSRecord L result zone of
                                Inl err \<Rightarrow> (Inl (wrapParsing err), st')
                              | Inr libRecord \<Rightarrow>
                                  (Inr (existingRecords', deletedRecords @ [libRecord]), st')))
                 else (Inr (existingRecords, deletedRecords), st))
          else
            (case deleteRecord S zone (ID (existingRecords ! i)) st of
               (Inl err, st') \<Rightarrow> (Inl err, st')
             | (Inr result, st') \<Rightarrow>
                 (case toLibDNSRecord L result zone of
                    Inl err \<Rightarrow> (Inl (wrapParsing err), st')
                  | Inr libRecord \<Rightarrow>
                      (Inr (existingRecords, deletedRecords @ [libRecord]), st'))))"

fun DeleteRecords_loop ::
  "'ip golib \<Rightarrow> 'w server \<Rightarrow> string \<Rightarrow> 'ip Record list
     \<Rightarrow> arDNSRecord list \<Rightarrow> 'ip Record list \<Rightarrow> 'w state
     \<Rightarrow> (error + 'ip Record list) \<times> 'w state" where
  "DeleteRecords_loop L S zone [] existingRecords deletedRecords st = (Inr deletedRecords, st)"
| "DeleteRecords_loop L S zone (r # rs) existingRecords deletedRecords st =
     (case DeleteRecords_step L S zone r existingRecords deletedRecords st of
        (Inl err, st') \<Rightarrow> (Inl err, st')
      | (Inr (existingRecords', deletedRecords'), st') \<Rightarrow>
          DeleteRecords_loop L S zone rs existingRecords' deletedRecords' st')"

definition DeleteRecords ::
  "'ip golib \<Rightarrow> 'w server \<Rightarrow> string \<Rightarrow> 'ip Record list \<Rightarrow> 'w state
     \<Rightarrow> ((error + 'ip Record list) \<times> 'w state) option" where
  "DeleteRecords L S zone records st =
     (case getRecords S zone st of
        None \<Rightarrow> None
      | Some (Inl err, st') \<Rightarrow> Some (Inl err, st')
      | Some (Inr existingRecords, st') \<Rightarrow>
          Some (DeleteRecords_loop L S zone records existingRecords [] st'))"

subsection \<open>Notions the properties are stated with\<close>

text \<open>
  The dynamic types that \<^verbatim>\<open>encoding/json\<close> stores in an \<^verbatim>\<open>any\<close>, and the type tags with
  an arm of their own in \<^verbatim>\<open>toLibDNSRecord\<close>.
\<close>

fun decodedJSON :: "goany \<Rightarrow> bool" where
  "decodedJSON ANil = True"
| "decodedJSON (ABool b) = True"
| "decodedJSON (AFloat64 x) = True"
| "decodedJSON (AString s) = True"
| "decodedJSON (ASlice xs) = True"
| "decodedJSON (AMap members) = True"
| "decodedJSON x = False"

definition knownTypes :: "string list" where
  "knownTypes = [''A'', ''AAAA'', ''CAA'', ''CNAME'', ''MX'', ''NS'', ''SRV'', ''TXT'']"

text \<open>
  Text that \<^verbatim>\<open>%q\<close> only encloses in quotes, and that has no quote at either end;
  such text enclosed in quotes; and text with a quote at one end only.
\<close>

definition plainText :: "'ip golib \<Rightarrow> string \<Rightarrow> bool" where
  "plainText L t =
     (\<not> HasPrefix t [dq] \<and> \<not> HasSuffix t [dq] \<and> Sprintf_q L t = dq # t @ [dq])"

definition quotedPlainText :: "'ip golib \<Rightarrow> string \<Rightarrow> bool" where
  "quotedPlainText L t =
     (2 \<le> length t \<and> HasPrefix t [dq] \<and> HasSuffix t [dq] \<and> plainText L (unwrapContent t))"

definition halfQuotedText :: "string \<Rightarrow> bool" where
  "halfQuotedText t = (HasPrefix t [dq] \<noteq> HasSuffix t [dq])"

definition wholeSeconds :: "int \<Rightarrow> bool" where
  "wholeSeconds ttl = (inInt64 ttl \<and> ttl mod 1000000000 = 0)"

text \<open>
  The generic records the round trip is stated for: a record of one of the seven types
  with an arm in \<^verbatim>\<open>arvancloudRecord\<close>, whose name is already relative to the zone (for
  an SRV record: whose reported name is reported again once service and transport are
  folded into it), whose TTL is a \<^verbatim>\<open>time.Duration\<close> of whole seconds, whose address is read back from its
  text, and whose TXT text is plain, plain in quotes, or has a quote at one end only.
\<close>

fun validGeneric :: "'ip golib \<Rightarrow> string \<Rightarrow> 'ip Record \<Rightarrow> bool" where
  "validGeneric L zone (Address name ttl ip) =
     (RelativeName L name zone = name \<and> wholeSeconds ttl
      \<and> ParseAddr L (Addr_String L ip) = Some ip)"
| "validGeneric L zone (CAA name ttl flags tag val) =
     (RelativeName L name zone = name \<and> wholeSeconds ttl)"
| "validGeneric L zone (CNAME name ttl target) =
     (RelativeName L name zone = name \<and> wholeSeconds ttl)"
| "validGeneric L zone (MX name ttl preference target) =
     (RelativeName L name zone = name \<and> wholeSeconds ttl)"
| "validGeneric L zone (NS name ttl target) =
     (RelativeName L name zone = name \<and> wholeSeconds ttl)"
| "validGeneric L zone (SRV service transport name ttl priority weight port target) =
     (SRV_Name L [] [] (RelativeName L (SRV_Name L service transport name) zone)
        = SRV_Name L service transport name \<and> wholeSeconds ttl)"
| "validGeneric L zone (TXT name ttl txt) =
     (RelativeName L name zone = name \<and> wholeSeconds ttl
      \<and> (plainText L txt \<or> quotedPlainText L txt \<or> halfQuotedText txt))"
| "validGeneric L zone (ServiceBinding rr) = False"
| "validGeneric L zone (RawRR rr) = False"

text \<open>
  The deletions \<^verbatim>\<open>SetRecords\<close> is to make, said without its loop: the identifiers of
  the existing records that the inputs match, input by input, deleted in this order
  until a deletion fails.
\<close>

definition matchedIDs ::
  "'ip golib \<Rightarrow> arDNSRecord list \<Rightarrow> string \<Rightarrow> 'ip Record list \<Rightarrow> string list" where
  "matchedIDs L existingRecords zone records =
     map (\<lambda>i. ID (existingRecords ! i))
       (List.map_filter
          (\<lambda>r. findExistingRecord L existingRecords (rr_Name (RR_of L r))
                 (rr_Type (RR_of L r)) zone)
          records)"

fun deleteAll :: "'w server \<Rightarrow> string \<Rightarrow> string list \<Rightarrow> 'w state \<Rightarrow> (error + unit) \<times> 'w state" where
  "deleteAll S zone [] st = (Inr (), st)"
| "deleteAll S zone (recordID # ids) st =
     (case deleteRecord S zone recordID st of
        (Inl err, st') \<Rightarrow> (Inl err, st')
      | (Inr result, st') \<Rightarrow> deleteAll S zone ids st')"

subsection \<open>An instance of the libraries, and a provider, to run the model on\<close>

text \<open>
  \<open>quoteASCII\<close> is \<^verbatim>\<open>strconv.Quote\<close> (the verb \<^verbatim>\<open>%q\<close>) on ASCII text: a quote and a
  backslash are escaped with a backslash, the other printable characters stand for
  themselves, and a control character is written as one of \<^verbatim>\<open>\a \b \f \n \r \t \v\<close> or
  as \<^verbatim>\<open>\x\<close> and two hexadecimal digits.
\<close>

definition hexDigit :: "nat \<Rightarrow> char" where
  "hexDigit n = (if n < 10 then char_of (48 + n) else char_of (87 + n))"

definition escapeASCII :: "char \<Rightarrow> string" where
  "escapeASCII c =
     (let n = (of_char c :: nat)
      in if c = dq \<or> c = bslash then [bslash, c]
         else if 32 \<le> n \<and> n \<le> 126 then [c]
         else if n = 7 then [bslash, CHR ''a'']
         else if n = 8 then [bslash, CHR ''b'']
         else if n = 12 then [bslash, CHR ''f'']
         else if n = 10 then [bslash, CHR ''n'']
         else if n = 13 then [bslash, CHR ''r'']
         else if n = 9 then [bslash, CHR ''t'']
         else if n = 11 then [bslash, CHR ''v'']
         else [bslash, CHR ''x'', hexDigit (n div 16), hexDigit (n mod 16)])"

definition quoteASCII :: "string \<Rightarrow> string" where
  "quoteASCII s = dq # concat (map escapeASCII s) @ [dq]"

text \<open>
  The libdns helpers, as libdns 1.1 defines them. \<^verbatim>\<open>AbsoluteName\<close> returns the zone for
  the names \<^verbatim>\<open>""\<close> and \<^verbatim>\<open>"@"\<close>, a name that ends in a dot as it is, and any other name
  joined to the zone with a dot (with an empty zone it trims the dots of the name).
  \<^verbatim>\<open>RelativeName\<close> returns the empty name for the empty name; otherwise it trims the
  zone, without its trailing dot, and the dot before it, and returns \<^verbatim>\<open>"@"\<close> when nothing
  is left.
\<close>

fun trimDots :: "string \<Rightarrow> string" where
  "trimDots s = rev (dropWhile (\<lambda>c. c = CHR ''.'') (rev (dropWhile (\<lambda>c. c = CHR ''.'') s)))"

definition libdns_AbsoluteName :: "string \<Rightarrow> string \<Rightarrow> string" where
  "libdns_AbsoluteName name zone =
     (if zone = [] then trimDots name
      else if name = [] \<or> name = ''@'' then zone
      else if HasSuffix name ''.'' then name
      else name @ ''.'' @ zone)"

definition libdns_RelativeName :: "string \<Rightarrow> string \<Rightarrow> string" where
  "libdns_RelativeName fqdn zone =
     (let rel = TrimSuffix (TrimSuffix (TrimSuffix fqdn ''.'') (TrimSuffix zone ''.'')) ''.''
      in if fqdn = [] then []
         else if rel = [] then ''@''
         else rel)"

text \<open>
  IPv4 addresses as four octets, with their dotted text as \<^verbatim>\<open>netip\<close> writes and reads
  it: four decimal fields of one to three digits, none above 255 and none with a leading
  zero. The instance has no IPv6 addresses.
\<close>

datatype ip4 = IP4 nat nat nat nat

fun ip4_String :: "ip4 \<Rightarrow> string" where
  "ip4_String (IP4 a b c d) =
     decimal a @ ''.'' @ decimal b @ ''.'' @ decimal c @ ''.'' @ decimal d"

fun splitDots :: "string \<Rightarrow> string list" where
  "splitDots [] = [[]]"
| "splitDots (c # cs) =
     (if c = CHR ''.'' then [] # splitDots cs
      else (case splitDots cs of [] \<Rightarrow> [[c]] | f # fs \<Rightarrow> (c # f) # fs))"

definition isDigit :: "char \<Rightarrow> bool" where
  "isDigit c = (48 \<le> (of_char c :: nat) \<and> (of_char c :: nat) \<le> 57)"

definition parseOctet :: "string \<Rightarrow> nat option" where
  "parseOctet f =
     (let n = foldl (\<lambda>a c. 10 * a + ((of_char c :: nat) - 48)) 0 f
      in if f = [] \<or> 3 < length f \<or> \<not> list_all isDigit f then None
         else if 1 < length f \<and> hd f = CHR ''0'' then None
         else if 255 < n then None
         else Some n)"

definition ip4_Parse :: "string \<Rightarrow> ip4 option" where
  "ip4_Parse s =
     (case map parseOctet (splitDots s) of
        [Some a, Some b, Some c, Some d] \<Rightarrow> Some (IP4 a b c d)
      | _ \<Rightarrow> None)"

definition emptyEnvelope :: arResponse where
  "emptyEnvelope =
     \<lparr>resp_Data = [], resp_Status = False, resp_Errors = [], resp_Message = [],
      resp_Links = None, resp_Meta = None\<rparr>"

text \<open>
  The decoder of the instance knows the body \<^verbatim>\<open>{}\<close>, which decodes to the zero
  envelope and is read to its end, and fails on every other body, as the decoder does at
  the first byte of an HTML page.

  The instance reports the name of an SRV record as it is when service and transport are
  both empty, and as \<^verbatim>\<open>_service._transport.name\<close> otherwise. Its fallback parser covers
  a value without a brace, which is no JSON object and flattens to empty data, with a
  type other than HTTPS and SVCB: \<^verbatim>\<open>RR.Parse\<close> returns such a record as it is. On the
  rest the instance gives an error.
\<close>

definition exDecode :: "string \<Rightarrow> (error + arResponse) \<times> string" where
  "exDecode body =
     (if body = ''{}'' then (Inr emptyEnvelope, [])
      else (Inl (DecodeError ''invalid character''), []))"

definition exSRV_Name :: "string \<Rightarrow> string \<Rightarrow> string \<Rightarrow> string" where
  "exSRV_Name service transport name =
     (if service = [] \<and> transport = [] then name
      else ''_'' @ service @ ''._'' @ transport @ ''.'' @ name)"

definition exFallback :: "string \<Rightarrow> int \<Rightarrow> string \<Rightarrow> string \<Rightarrow> error + ip4 Record" where
  "exFallback name ttl rtype val =
     (if Contains val ''{'' \<or> rtype = ''HTTPS'' \<or> rtype = ''SVCB''
      then Inl (RRParseError rtype)
      else Inr (RawRR \<lparr>rr_Name = name, rr_TTL = ttl, rr_Type = rtype, rr_Data = []\<rparr>))"

definition exLib :: "ip4 golib" where
  "exLib =
     \<lparr>Sprintf_q = quoteASCII, ParseAddr = ip4_Parse, Addr_String = ip4_String,
      Addr_Is6 = (\<lambda>ip. False), AbsoluteName = libdns_AbsoluteName,
      RelativeName = libdns_RelativeName, SRV_Name = exSRV_Name,
      Fallback = exFallback, Decode = exDecode\<rparr>"

text \<open>
  A provider that keeps the records of one zone in a list and answers on one page. It
  holds and returns values as JSON decoding gives them (\<open>jsonOf\<close> is the decoded JSON
  of a value the client sends). It creates the record that the body of the request
  holds, and answers an error to a body that holds none; deleting or updating an
  identifier it does not hold is an error.
\<close>

definition entryJSON :: "ARecordValue \<Rightarrow> goany" where
  "entryJSON v = AMap [(''ip'', AString (a_IP v))]"

fun jsonOf :: "goany \<Rightarrow> goany" where
  "jsonOf (VARecord v) = entryJSON v"
| "jsonOf (VARecords vs) = ASlice (map entryJSON vs)"
| "jsonOf (VTXT v) = AMap [(''text'', AString (txt_Text v))]"
| "jsonOf (VCNAME v) = AMap [(''host'', AString (cname_Host v))]"
| "jsonOf (VNS v) = AMap [(''host'', AString (ns_Host v))]"
| "jsonOf (VMX v) =
     AMap [(''host'', AString (mx_Host v)), (''priority'', AFloat64 (Some (uint (mx_Priority v))))]"
| "jsonOf (VCAA v) = AMap [(''tag'', AString (caa_Tag v)), (''value'', AString (caa_Value v))]"
| "jsonOf (VSRV v) =
     AMap [(''port'', AFloat64 (Some (uint (srv_Port v)))),
           (''priority'', AFloat64 (Some (uint (srv_Priority v)))),
           (''target'', AString (srv_Target v)),
           (''weight'', AFloat64 (Some (uint (srv_Weight v))))]"
| "jsonOf x = x"

definition exServer :: "arDNSRecord list server" where
  "exServer =
     \<lparr>sv_list = (\<lambda>w zone page.
        (Inr \<lparr>pg_Data = w, pg_Next = None, pg_CurrentPage = 1, pg_LastPage = 1\<rparr>, w)),
      sv_create = (\<lambda>w zone sent.
        (case sent of
           RecordJSON r \<Rightarrow>
             (let r' = r\<lparr>ID := ''id-'' @ decimal (length w), Value := jsonOf (Value r)\<rparr>
              in (Inr r', w @ [r']))
         | _ \<Rightarrow> (Inl (TransportError ''unprocessable''), w))),
      sv_delete = (\<lambda>w zone recordID.
        (case find (\<lambda>r. ID r = recordID) w of
           None \<Rightarrow> (Inl (TransportError ''not found''), w)
         | Some r \<Rightarrow> (Inr r, filter (\<lambda>r. ID r \<noteq> recordID) w))),
      sv_update = (\<lambda>w zone recordID r.
        (let r' = r\<lparr>Value := jsonOf (Value r)\<rparr>
         in if list_ex (\<lambda>x. ID x = recordID) w
            then (Inr r', map (\<lambda>x. if ID x = recordID then r' else x) w)
            else (Inl (TransportError ''not found''), w)))\<rparr>"

definition providerRecord :: "string \<Rightarrow> string \<Rightarrow> string \<Rightarrow> goany \<Rightarrow> arDNSRecord" where
  "providerRecord recordID rtype name val =
     \<lparr>ID = recordID, Type = rtype, Name = name, Value = val, TTL = 300, Cloud = False,
      IsProtected = False, UpstreamHTTPS = [], IPFilterMode = None\<rparr>"

definition start :: "'w \<Rightarrow> 'w state" where
  "start w = \<lparr>world = w, calls = []\<rparr>"

text \<open>The zone, the provider records and the inputs of the examples.\<close>

definition exZone :: string where
  "exZone = ''example.com''"

definition entry :: "string \<Rightarrow> ARecordValue" where
  "entry ip = \<lparr>a_IP = ip, a_Port = 0, a_Weight = 0, a_Country = []\<rparr>"

definition wwwTwoIPs :: arDNSRecord where
  "wwwTwoIPs = providerRecord ''1'' ''A'' ''www''
     (ASlice [AMap [(''ip'', AString ''1.1.1.1'')], AMap [(''ip'', AString ''2.2.2.2'')]])"

definition wwwOneIP :: arDNSRecord where
  "wwwOneIP = providerRecord ''1'' ''A'' ''www'' (ASlice [AMap [(''ip'', AString ''1.1.1.1'')]])"

definition wwwBroken :: arDNSRecord where
  "wwwBroken = providerRecord ''1'' ''A'' ''www''
     (ASlice [AMap [(''ip'', AString ''1.1.1.1'')], AString ''x''])"

definition wwwNoArray :: arDNSRecord where
  "wwwNoArray = providerRecord ''1'' ''A'' ''www'' (AString ''1.1.1.1'')"

definition addr1 :: "ip4 Record" where
  "addr1 = Address ''www'' 300000000000 (IP4 1 1 1 1)"

definition addr2 :: "ip4 Record" where
  "addr2 = Address ''www'' 300000000000 (IP4 2 2 2 2)"

definition mailAddr :: "ip4 Record" where
  "mailAddr = Address ''mail'' 300000000000 (IP4 1 1 1 1)"

section \<open>Properties\<close>

subsection \<open>The quote helpers\<close>

lemma HasPrefix_dq: "HasPrefix s [dq] = (s \<noteq> [] \<and> hd s = dq)"
  by (cases s) (auto simp: HasPrefix_def)

lemma HasSuffix_dq: "HasSuffix s [dq] = (s \<noteq> [] \<and> last s = dq)"
proof (cases s rule: rev_cases)
  case Nil
  then show ?thesis by (simp add: HasSuffix_def)
next
  case (snoc ys y)
  then show ?thesis by (auto simp: HasSuffix_def)
qed

lemma unwrap_enclosed: "unwrapContent (dq # s @ [dq]) = s"
  by (simp add: unwrapContent_def HasPrefix_dq HasSuffix_dq TrimSuffix_def TrimPrefix_def)

lemma unwrap_not_enclosed:
  "\<not> (HasPrefix s [dq] \<and> HasSuffix s [dq]) \<Longrightarrow> unwrapContent s = s"
  by (auto simp: unwrapContent_def)

lemma wrap_quoted: "HasPrefix s [dq] \<or> HasSuffix s [dq] \<Longrightarrow> wrapContent L s = s"
  by (auto simp: wrapContent_def)

lemma wrap_unquoted:
  "\<not> HasPrefix s [dq] \<Longrightarrow> \<not> HasSuffix s [dq] \<Longrightarrow> wrapContent L s = Sprintf_q L s"
  by (simp add: wrapContent_def)

lemma quoteASCII_prefix: "HasPrefix (quoteASCII t) [dq]"
  by (simp add: quoteASCII_def HasPrefix_def)

text \<open>
  \<^bold>\<open>C7\<close>, amended. Given that the output of \<^verbatim>\<open>%q\<close> starts with a quote character:
  \<open>wrapContent\<close> is idempotent; \<open>unwrapContent\<close> leaves text unchanged, and so is
  idempotent, on text that is not enclosed in quotes; \<open>unwrapContent (wrapContent s) = s\<close>
  for every \<open>s\<close> without a quote at either end that \<^verbatim>\<open>%q\<close> only encloses in quotes,
  and for every \<open>s\<close> with a quote at one end only; and wrapping text that starts or
  ends with a quote is a no-op.
\<close>

theorem wrap_unwrap_laws:
  assumes q: "\<forall>t. HasPrefix (Sprintf_q L t) [dq]"
  shows "wrapContent L (wrapContent L s) = wrapContent L s
       \<and> (\<not> (HasPrefix s [dq] \<and> HasSuffix s [dq]) \<longrightarrow>
             unwrapContent (unwrapContent s) = unwrapContent s \<and> unwrapContent s = s)
       \<and> (plainText L s \<or> halfQuotedText s \<longrightarrow> unwrapContent (wrapContent L s) = s)
       \<and> (HasPrefix s [dq] \<or> HasSuffix s [dq] \<longrightarrow> wrapContent L s = s)"
proof -
  have idem: "wrapContent L (wrapContent L s) = wrapContent L s"
  proof (cases "HasPrefix s [dq] \<or> HasSuffix s [dq]")
    case True
    then show ?thesis by (simp add: wrap_quoted)
  next
    case False
    then have w: "wrapContent L s = Sprintf_q L s" by (simp add: wrap_unquoted)
    from q have "HasPrefix (Sprintf_q L s) [dq]" by blast
    then show ?thesis unfolding w by (simp add: wrap_quoted)
  qed
  have plain: "plainText L s \<longrightarrow> unwrapContent (wrapContent L s) = s"
    by (auto simp: plainText_def wrap_unquoted unwrap_enclosed)
  have half: "halfQuotedText s \<longrightarrow> unwrapContent (wrapContent L s) = s"
    by (auto simp: halfQuotedText_def wrap_quoted unwrap_not_enclosed)
  from idem plain half show ?thesis
    by (auto simp: unwrap_not_enclosed wrap_quoted)
qed

theorem wrap_unwrap_laws_witness:
  \<open>(\<forall>t. HasPrefix (Sprintf_q exLib t) [dq])
   \<and> wrapContent exLib (wrapContent exLib ''abc'') = wrapContent exLib ''abc''
   \<and> unwrapContent (unwrapContent ''abc'') = unwrapContent ''abc''
   \<and> plainText exLib ''abc''
   \<and> unwrapContent (wrapContent exLib ''abc'') = ''abc''
   \<and> halfQuotedText ''"abc''
   \<and> unwrapContent (wrapContent exLib ''"abc'') = ''"abc''
   \<and> wrapContent exLib ''"abc"'' = ''"abc"''\<close>
proof -
  have q: "\<forall>t. HasPrefix (Sprintf_q exLib t) [dq]"
    by (simp add: exLib_def quoteASCII_prefix)
  have p: "plainText exLib ''abc''"
    by (simp add: plainText_def exLib_def quoteASCII_def escapeASCII_def HasPrefix_def
        HasSuffix_def dq_def bslash_def)
  have n: "\<not> (HasPrefix ''abc'' [dq] \<and> HasSuffix ''abc'' [dq])"
    by (simp add: HasPrefix_def dq_def)
  have h: \<open>HasPrefix ''"abc"'' [dq] \<or> HasSuffix ''"abc"'' [dq]\<close>
    by (simp add: HasPrefix_def dq_def)
  have hq: \<open>halfQuotedText ''"abc''\<close>
    by (simp add: halfQuotedText_def HasPrefix_def HasSuffix_def dq_def)
  from wrap_unwrap_laws [OF q, of "''abc''"] wrap_unwrap_laws [OF q, of \<open>''"abc"''\<close>]
    wrap_unwrap_laws [OF q, of \<open>''"abc''\<close>] q p n h hq
  show ?thesis by blast
qed

text \<open>
  The claim as stated fails: wrapping text that is already enclosed in quotes changes
  nothing, and unwrapping then strips the quotes, so \<open>unwrapContent (wrapContent s)\<close> is
  not \<open>s\<close> for \<^verbatim>\<open>"abc"\<close> with its quotes.
\<close>

theorem unwrap_wrap_quoted_counterexample:
  \<open>unwrapContent (wrapContent exLib ''"abc"'') = ''abc''
   \<and> unwrapContent (wrapContent exLib ''"abc"'') \<noteq> ''"abc"''\<close>
  by (simp add: unwrapContent_def wrapContent_def HasPrefix_def HasSuffix_def
      TrimPrefix_def TrimSuffix_def dq_def)

subsection \<open>The record locator\<close>

lemma normalize_apex_marker: "normalizeRecordName ''@'' zone = ''@''"
  by (simp add: normalizeRecordName_def TrimSuffix_def HasSuffix_def)

text \<open>
  \<^bold>\<open>C3\<close>. The code departs from the claim. The arm that would replace the apex marker
  \<^verbatim>\<open>@\<close> by the zone is guarded by \<^verbatim>\<open>recordName != "@"\<close> and never runs, so a stored
  record named \<^verbatim>\<open>@\<close> keeps that name and is not found by a search for the apex, which
  \<^verbatim>\<open>AbsoluteName\<close> turns into the zone. And only the stored name loses its trailing
  dot: with a zone written with a trailing dot, a stored \<^verbatim>\<open>www\<close> is not found by a search
  for \<^verbatim>\<open>www\<close>.
\<close>

theorem findExistingRecord_apex_marker_not_matched:
  "findExistingRecord exLib [providerRecord ''1'' ''A'' ''@'' ANil] ''@'' ''A'' ''example.com'' = None
   \<and> AbsoluteName exLib ''@'' ''example.com'' = ''example.com''
   \<and> normalizeRecordName ''@'' ''example.com'' = ''@''
   \<and> findExistingRecord exLib [providerRecord ''1'' ''A'' ''www'' ANil] ''www'' ''A'' ''example.com.'' = None"
  by (simp add: findExistingRecord_def providerRecord_def exLib_def libdns_AbsoluteName_def
      normalizeRecordName_def HasPrefix_def HasSuffix_def TrimSuffix_def EqualFold_def
      toLowerASCII_def)

subsection \<open>The record codec\<close>

lemma toLibDNSRecord_decoded_value_panics:
  assumes "Type r \<in> set knownTypes" and "decodedJSON (Value r)"
  shows "toLibDNSRecord L r zone = Inl PanicTypeAssertion"
  using assms by (cases "Value r") (auto simp: toLibDNSRecord_def knownTypes_def Let_def)

text \<open>
  \<^bold>\<open>C2\<close>. The code departs from the claim. A payload decoded from JSON is a
  \<^verbatim>\<open>map[string]any\<close> (or another of the types JSON decoding stores), never one of the
  \<^verbatim>\<open>...RecordValue\<close> structs, so the type assertion of every arm for a known type
  panics: here for a CNAME record whose payload is the object \<^verbatim>\<open>{"host": "example.net"}\<close>.
\<close>

theorem toLibDNSRecord_panics_on_decoded_payload:
  "toLibDNSRecord exLib
     (providerRecord ''1'' ''CNAME'' ''www'' (AMap [(''host'', AString ''example.net'')]))
     ''example.com'' = Inl PanicTypeAssertion"
  by (simp add: toLibDNSRecord_def providerRecord_def)

lemma wrap64_id: "inInt64 n \<Longrightarrow> wrap64 n = n"
  by (simp add: inInt64_def wrap64_def)

lemma roundHalfEven_int: "roundHalfEven (of_int m) = m"
  by (simp add: roundHalfEven_def)

text \<open>A whole number below \<open>2 ^ 53\<close> is a float64.\<close>

lemma float64_int:
  assumes "\<bar>n\<bar> < 2 ^ 53"
  shows "float64 (of_int n) = of_int n"
proof (cases "n = 0")
  case True
  then show ?thesis by (simp add: float64_def)
next
  case False
  define a where "a = \<bar>n\<bar>"
  have a: "0 < a" "a < 2 ^ 53" using False assms by (auto simp: a_def)
  have ab: "\<bar>of_int n :: rat\<bar> = of_int a" by (simp add: a_def)
  from bitlen_bounds [OF a(1)] have lo: "2 ^ nat (bitlen a - 1) \<le> a" by blast
  from a have b1: "1 \<le> bitlen a" by (auto simp: bitlen_alt_def)
  from a have b53: "bitlen a \<le> 53" by (simp add: bitlen_le_iff_power)
  define k where "k = nat (53 - bitlen a)"
  have g: "log2floor (of_int a) = bitlen a - 1"
  proof -
    have "(2::rat) powi (bitlen a - 1) = 2 ^ nat (bitlen a - 1)"
      using b1 by (simp add: power_int_def)
    also have "\<dots> = of_int (2 ^ nat (bitlen a - 1))" by simp
    also have "\<dots> \<le> of_int a" using lo by (simp only: of_int_le_iff)
    finally have "(2::rat) powi (bitlen a - 1) \<le> of_int a" .
    moreover have "bitlen 1 = 1" by (simp add: bitlen_alt_def)
    ultimately show ?thesis by (simp add: log2floor_def Let_def)
  qed
  have u: "(2::rat) powi (log2floor (of_int a) - 52) = inverse (2 ^ k)"
  proof -
    have "log2floor (of_int a) - 52 = - int k" using b53 by (simp add: g k_def)
    then show ?thesis by (simp add: power_int_minus)
  qed
  have "of_int a / inverse ((2::rat) ^ k) = of_int (a * 2 ^ k)"
    by (simp add: divide_inverse)
  then have "of_int (roundHalfEven (of_int a / inverse ((2::rat) ^ k))) * inverse (2 ^ k)
      = (of_int (a * 2 ^ k) :: rat) * inverse (2 ^ k)"
    by (simp only: roundHalfEven_int)
  also have "\<dots> = of_int a" by simp
  finally have m: "of_int (roundHalfEven (of_int a / inverse ((2::rat) ^ k))) * inverse (2 ^ k)
      = (of_int a :: rat)" .
  have "float64 (of_int n) = (if n < 0 then - of_int a else of_int a)"
    using False by (simp add: float64_def ab u m Let_def)
  then show ?thesis by (simp add: a_def)
qed

lemma Seconds_int_whole:
  assumes "\<bar>q\<bar> < 2 ^ 53"
  shows "Seconds_int (q * 1000000000) = q"
proof -
  have "quoInt (q * 1000000000) 1000000000 = q"
  proof (cases "0 \<le> q")
    case True
    then show ?thesis by (simp add: quoInt_def)
  next
    case False
    have "- (q * 1000000000) = (- q) * 1000000000" by simp
    then have "(- (q * 1000000000)) div 1000000000 = - q"
      by (metis nonzero_mult_div_cancel_right zero_neq_numeral)
    with False show ?thesis by (simp add: quoInt_def)
  qed
  moreover have "float64 0 = 0" by (simp add: float64_def)
  moreover have "float64 (of_int q) = of_int q" using assms by (rule float64_int)
  ultimately have "Seconds (q * 1000000000) = of_int q"
    by (simp add: Seconds_def Let_def)
  then show ?thesis by (simp add: Seconds_int_def truncateToInt_def)
qed

lemma Seconds_int_round_trip:
  assumes "wholeSeconds d"
  shows "Seconds_int (wrap64 (Seconds_int d * 1000000000)) = Seconds_int d"
proof -
  define q where "q = d div 1000000000"
  from assms have d: "d = q * 1000000000"
    by (auto simp: wholeSeconds_def q_def)
  from assms have "\<bar>q\<bar> < 2 ^ 53"
    unfolding d wholeSeconds_def inInt64_def by auto
  then have s: "Seconds_int d = q" unfolding d by (rule Seconds_int_whole)
  from assms have "wrap64 d = d" by (simp add: wholeSeconds_def wrap64_id)
  then show ?thesis by (simp add: s) (simp add: d [symmetric] s)
qed

lemma enclosed_form:
  assumes "2 \<le> length t" and "HasPrefix t [dq]" and "HasSuffix t [dq]"
  shows "t = dq # unwrapContent t @ [dq]"
proof -
  from assms(1,2) have "\<exists>t'. t = dq # t' \<and> t' \<noteq> []"
    by (cases t) (auto simp: HasPrefix_dq)
  then obtain t' where t: "t = dq # t'" and "t' \<noteq> []" by blast
  then obtain u b where t': "t' = u @ [b]"
    by (cases t' rule: rev_cases) auto
  with t assms(3) have "b = dq" by (simp add: HasSuffix_dq)
  with t t' have "t = dq # u @ [dq]" by simp
  then show ?thesis by (simp add: unwrap_enclosed)
qed

lemma txt_stable:
  assumes "plainText L t \<or> quotedPlainText L t \<or> halfQuotedText t"
  shows "wrapContent L (unwrapContent (wrapContent L t)) = wrapContent L t"
proof -
  have plain: "wrapContent L u = dq # u @ [dq] \<and> unwrapContent (dq # u @ [dq]) = u"
    if "plainText L u" for u
    using that by (simp add: plainText_def wrap_unquoted unwrap_enclosed)
  from assms consider "plainText L t" | "quotedPlainText L t" | "halfQuotedText t"
    by blast
  then show ?thesis
  proof cases
    case 1
    then show ?thesis using plain [of t] by simp
  next
    case 3
    then show ?thesis
      by (auto simp: halfQuotedText_def wrap_quoted unwrap_not_enclosed)
  next
    case 2
    then have q: "quotedPlainText L t" .
    then have w: "wrapContent L t = t"
      by (simp add: quotedPlainText_def wrap_quoted)
    from q have e: "t = dq # unwrapContent t @ [dq]"
      by (simp add: quotedPlainText_def enclosed_form)
    from q have "plainText L (unwrapContent t)" by (simp add: quotedPlainText_def)
    then have "wrapContent L (unwrapContent t) = dq # unwrapContent t @ [dq]"
      using plain by blast
    with e w show ?thesis by simp
  qed
qed

text \<open>
  Where the round trip holds: for every generic record \<open>r\<close> of one of the seven modelled
  types that is valid in the sense of \<open>validGeneric\<close> (for a TXT record: its text is
  plain, plain text in quotes, or text with a quote at one end only),
  \<open>toLibDNSRecord\<close> succeeds on \<open>arvancloudRecord r\<close> and \<open>arvancloudRecord\<close> of its
  result is \<open>arvancloudRecord r\<close>.
\<close>

lemma codec_round_trip:
  assumes "validGeneric L zone r"
  shows "\<exists>g. toLibDNSRecord L (arvancloudRecord L r) zone = Inr g
            \<and> arvancloudRecord L g = arvancloudRecord L r"
proof (cases r)
  case (Address name ttl ip)
  with assms show ?thesis
    by (simp add: arvancloudRecord_def toLibDNSRecord_def Seconds_int_round_trip)
next
  case (CAA name ttl flags tag val)
  with assms show ?thesis
    by (simp add: arvancloudRecord_def toLibDNSRecord_def Seconds_int_round_trip)
next
  case (CNAME name ttl target)
  with assms show ?thesis
    by (simp add: arvancloudRecord_def toLibDNSRecord_def Seconds_int_round_trip)
next
  case (MX name ttl preference target)
  with assms show ?thesis
    by (simp add: arvancloudRecord_def toLibDNSRecord_def Seconds_int_round_trip)
next
  case (NS name ttl target)
  with assms show ?thesis
    by (simp add: arvancloudRecord_def toLibDNSRecord_def Seconds_int_round_trip)
next
  case (SRV service transport name ttl priority weight port target)
  with assms show ?thesis
    by (simp add: arvancloudRecord_def toLibDNSRecord_def Seconds_int_round_trip)
next
  case (TXT name ttl content)
  with assms show ?thesis
    by (simp add: arvancloudRecord_def toLibDNSRecord_def Seconds_int_round_trip txt_stable)
next
  case (ServiceBinding rr)
  with assms show ?thesis by simp
next
  case (RawRR rr)
  with assms show ?thesis by simp
qed

lemma valid_examples:
  "validGeneric exLib ''example.com'' (Address ''www'' 300000000000 (IP4 192 0 2 7))"
  "validGeneric exLib ''example.com'' (TXT ''www'' 300000000000 ''hello world'')"
  "validGeneric exLib ''example.com''
     (SRV ''sip'' ''tcp'' ''www'' 300000000000 10 20 5060 ''sip.example.net'')"
  by code_simp+

text \<open>
  \<^bold>\<open>C6\<close>. The code departs from the claim. \<open>wrapContent\<close> quotes a text with \<^verbatim>\<open>%q\<close>,
  which escapes a quote or a backslash inside it, and \<open>unwrapContent\<close> strips the outer
  quotes without undoing the escapes. The TXT text \<^verbatim>\<open>a"b\<close> goes out as \<^verbatim>\<open>"a\"b"\<close>,
  comes back as \<^verbatim>\<open>a\"b\<close> with the backslash, and goes out again as another provider
  record.
\<close>

theorem codec_round_trip_fails_on_escaped_txt:
  \<open>arvancloudRecord exLib (TXT ''www'' 300000000000 ''a"b'')
     = \<lparr>ID = [], Type = ''TXT'', Name = ''www'',
        Value = VTXT \<lparr>txt_Text = [dq, CHR ''a'', bslash, dq, CHR ''b'', dq]\<rparr>,
        TTL = 300, Cloud = False, IsProtected = False, UpstreamHTTPS = [],
        IPFilterMode = None\<rparr>
   \<and> toLibDNSRecord exLib (arvancloudRecord exLib (TXT ''www'' 300000000000 ''a"b''))
      ''example.com''
     = Inr (TXT ''www'' 300000000000 [CHR ''a'', bslash, dq, CHR ''b''])
   \<and> arvancloudRecord exLib (TXT ''www'' 300000000000 [CHR ''a'', bslash, dq, CHR ''b''])
     \<noteq> arvancloudRecord exLib (TXT ''www'' 300000000000 ''a"b'')\<close>
  by code_simp

subsection \<open>The transport client\<close>

lemma client_do_error_status:
  "400 \<le> StatusCode resp \<Longrightarrow> \<exists>err. client_do L unmarshal (Inr resp) result = Inl err"
  by (cases "Decode L (Body resp)") (auto simp: client_do_def split: sum.splits)

text \<open>
  \<^bold>\<open>C8\<close>. The code departs from the claim. A status of 400 or more always gives an
  error (\<open>client_do_error_status\<close>), but its text does not hold the body: the envelope
  is decoded first, which reads the body, so \<^verbatim>\<open>io.ReadAll\<close> returns what is left, here
  nothing, and the error for the body \<^verbatim>\<open>{}\<close> with status 500 reads
  \<^verbatim>\<open>API error 500: \<close>; and a body that does not decode returns the decoder's error
  before the status is looked at.
\<close>

theorem client_do_error_text_lacks_body:
  "client_do exLib (\<lambda>raw (target::unit). Inr target)
      (Inr \<lparr>StatusCode = 500, Body = ''{}''\<rparr>) (Some ()) = Inl (APIError 500 [])
   \<and> APIErrorText 500 [] = ''API error 500: ''
   \<and> \<not> Contains (APIErrorText 500 []) ''{}''
   \<and> client_do exLib (\<lambda>raw (target::unit). Inr target)
      (Inr \<lparr>StatusCode = 502, Body = ''<html>''\<rparr>) (Some ())
       = Inl (DecodeError ''invalid character'')"
  by code_simp

subsection \<open>Listing\<close>

text \<open>
  \<^bold>\<open>C1\<close>. The code departs from the claim. \<^verbatim>\<open>GetRecords\<close> hands every provider record
  to \<^verbatim>\<open>toLibDNSRecord\<close> as it was decoded; for an A record the payload is an array of
  IP entries, on which the type assertion to \<^verbatim>\<open>ARecordValue\<close> panics, with one entry as
  with two. No generic record is returned.
\<close>

theorem GetRecords_panics_on_address_array:
  "GetRecords exLib exServer exZone (start [wwwOneIP])
     = Some (Inl PanicTypeAssertion, \<lparr>world = [wwwOneIP], calls = [ListCall exZone 1]\<rparr>)
   \<and> GetRecords exLib exServer exZone (start [wwwTwoIPs])
     = Some (Inl PanicTypeAssertion, \<lparr>world = [wwwTwoIPs], calls = [ListCall exZone 1]\<rparr>)"
  by code_simp

subsection \<open>Deleting\<close>

lemma removeIP_filter:
  "removeIP data vs newVals found =
     (newVals @ filter (\<lambda>v. a_IP v \<noteq> data) vs, found \<or> list_ex (\<lambda>v. a_IP v = data) vs)"
  by (induction vs arbitrary: newVals found) auto

lemma deleteRecord_calls:
  "calls (snd (deleteRecord S zone recordID st)) = calls st @ [DeleteCall zone recordID]"
  by (simp add: deleteRecord_def split: prod.splits)


text \<open>What is left of the loop body once the record is found and the input is an address.\<close>

lemma step_address:
  assumes "findExistingRecord L ex (rr_Name (RR_of L r)) (rr_Type (RR_of L r)) zone = Some i"
    and "rr_Type (RR_of L r) = ''A'' \<or> rr_Type (RR_of L r) = ''AAAA''"
  shows "DeleteRecords_step L S zone r ex del st =
     (let cur = decodeARecordValues (Value (ex ! i));
          new = filter (\<lambda>v. a_IP v \<noteq> rr_Data (RR_of L r)) cur
      in if list_ex (\<lambda>v. a_IP v = rr_Data (RR_of L r)) cur then
           if new = [] then
             (case deleteRecord S zone (ID (ex ! i)) st of
                (Inl err, st') \<Rightarrow> (Inl err, st')
              | (Inr result, st') \<Rightarrow>
                  (case toLibDNSRecord L result zone of
                     Inl err \<Rightarrow> (Inl (wrapParsing err), st')
                   | Inr libRecord \<Rightarrow> (Inr (ex, del @ [libRecord]), st')))
           else
             (case updateRecord S zone (ID (ex ! i)) ((ex ! i)\<lparr>Value := VARecords new\<rparr>) st of
                (Inl err, st') \<Rightarrow> (Inl err, st')
              | (Inr result, st') \<Rightarrow>
                  (case toLibDNSRecord L result zone of
                     Inl err \<Rightarrow> (Inl (wrapParsing err), st')
                   | Inr libRecord \<Rightarrow>
                       (Inr (ex[i := (ex ! i)\<lparr>Value := VARecords new\<rparr>], del @ [libRecord]), st')))
         else (Inr (ex, del), st))"
  using assms by (simp add: DeleteRecords_step_def removeIP_filter Let_def)



lemma step_absent:
  "findExistingRecord L ex (rr_Name (RR_of L r)) (rr_Type (RR_of L r)) zone = None
   \<Longrightarrow> DeleteRecords_step L S zone r ex del st = (Inr (ex, del), st)"
  by (simp add: DeleteRecords_step_def)

lemma loop_absent:
  "\<forall>r \<in> set records.
      findExistingRecord L ex (rr_Name (RR_of L r)) (rr_Type (RR_of L r)) zone = None
   \<Longrightarrow> DeleteRecords_loop L S zone records ex del st = (Inr del, st)"
  by (induction records) (simp_all add: step_absent)

text \<open>
  \<^bold>\<open>C9\<close>. An input without a matching existing record leaves the loop body as it
  found it: no request, nothing added to the deleted records, no error. So a call of
  \<^verbatim>\<open>DeleteRecords\<close> whose listing matches none of its inputs returns the empty list
  without an error once the listing is fetched, which is what a second deletion of the
  same record meets.
\<close>

theorem DeleteRecords_skips_absent:
  "(findExistingRecord L ex (rr_Name (RR_of L r)) (rr_Type (RR_of L r)) zone = None
      \<longrightarrow> DeleteRecords_step L S zone r ex del st = (Inr (ex, del), st))
   \<and> (getRecords S zone st0 = Some (Inr ex0, st1)
      \<and> (\<forall>r \<in> set records.
            findExistingRecord L ex0 (rr_Name (RR_of L r)) (rr_Type (RR_of L r)) zone = None)
      \<longrightarrow> DeleteRecords L S zone records st0 = Some (Inr [], st1))"
  by (simp add: step_absent loop_absent DeleteRecords_def)

theorem DeleteRecords_skips_absent_witness:
  "findExistingRecord exLib [wwwOneIP] (rr_Name (RR_of exLib mailAddr))
      (rr_Type (RR_of exLib mailAddr)) exZone = None
   \<and> DeleteRecords_step exLib exServer exZone mailAddr [wwwOneIP] [] (start [wwwOneIP])
       = (Inr ([wwwOneIP], []), start [wwwOneIP])
   \<and> DeleteRecords exLib exServer exZone [mailAddr] (start [wwwOneIP])
       = Some (Inr [], \<lparr>world = [wwwOneIP], calls = [ListCall exZone 1]\<rparr>)
   \<and> DeleteRecords exLib exServer exZone [addr1] (start [wwwOneIP])
       = Some (Inl PanicTypeAssertion,
               \<lparr>world = [], calls = [ListCall exZone 1, DeleteCall exZone ''1'']\<rparr>)
   \<and> DeleteRecords exLib exServer exZone [addr1]
        \<lparr>world = [], calls = [ListCall exZone 1, DeleteCall exZone ''1'']\<rparr>
       = Some (Inr [],
               \<lparr>world = [],
                calls = [ListCall exZone 1, DeleteCall exZone ''1'', ListCall exZone 1]\<rparr>)"
proof -
  have f: "findExistingRecord exLib [wwwOneIP] (rr_Name (RR_of exLib mailAddr))
      (rr_Type (RR_of exLib mailAddr)) exZone = None"
    by code_simp
  have g1: "getRecords exServer exZone (start [wwwOneIP])
              = Some (Inr [wwwOneIP], \<lparr>world = [wwwOneIP], calls = [ListCall exZone 1]\<rparr>)"
    by code_simp
  have first: "DeleteRecords exLib exServer exZone [addr1] (start [wwwOneIP])
       = Some (Inl PanicTypeAssertion,
               \<lparr>world = [], calls = [ListCall exZone 1, DeleteCall exZone ''1'']\<rparr>)"
    by code_simp
  have g2: "getRecords exServer exZone
              \<lparr>world = [], calls = [ListCall exZone 1, DeleteCall exZone ''1'']\<rparr>
            = Some (Inr [], \<lparr>world = [],
                calls = [ListCall exZone 1, DeleteCall exZone ''1'', ListCall exZone 1]\<rparr>)"
    by code_simp
  have f2: "\<forall>r \<in> set [addr1]. findExistingRecord exLib [] (rr_Name (RR_of exLib r))
      (rr_Type (RR_of exLib r)) exZone = None"
    by (simp add: findExistingRecord_def)
  have f1: "\<forall>r \<in> set [mailAddr]. findExistingRecord exLib [wwwOneIP] (rr_Name (RR_of exLib r))
      (rr_Type (RR_of exLib r)) exZone = None"
    using f by simp
  note a = DeleteRecords_skips_absent [of exLib "[wwwOneIP]" mailAddr exZone exServer "[]"
      "start [wwwOneIP]" "start [wwwOneIP]" "[wwwOneIP]" _ "[mailAddr]"]
  note b = DeleteRecords_skips_absent [of exLib "[wwwOneIP]" mailAddr exZone exServer "[]"
      "start [wwwOneIP]" "\<lparr>world = [], calls = [ListCall exZone 1, DeleteCall exZone ''1'']\<rparr>"
      "[]" _ "[addr1]"]
  from a f g1 f1 have r1: "DeleteRecords_step exLib exServer exZone mailAddr [wwwOneIP] [] (start [wwwOneIP])
       = (Inr ([wwwOneIP], []), start [wwwOneIP])"
    and r2: "DeleteRecords exLib exServer exZone [mailAddr] (start [wwwOneIP])
       = Some (Inr [], \<lparr>world = [wwwOneIP], calls = [ListCall exZone 1]\<rparr>)"
    by blast+
  from b g2 f2 have r3: "DeleteRecords exLib exServer exZone [addr1]
        \<lparr>world = [], calls = [ListCall exZone 1, DeleteCall exZone ''1'']\<rparr>
       = Some (Inr [],
               \<lparr>world = [],
                calls = [ListCall exZone 1, DeleteCall exZone ''1'', ListCall exZone 1]\<rparr>)"
    by blast
  from f r1 r2 first r3 show ?thesis by blast
qed

lemma decode_not_array:
  "unmarshalError v \<Longrightarrow> \<forall>xs. v \<noteq> ASlice xs \<Longrightarrow> decodeARecordValues v = []"
  by (cases v) auto

text \<open>
  \<^bold>\<open>C10\<close>, amended. The errors of the two JSON calls are dropped, and the input is
  handled with the entries the decoding left behind. When the decoding of the payload of
  the matching A/AAAA record reports an error, the input is skipped (no request, nothing
  added to the deleted records, no error) if none of the entries left behind has the
  IP of the input; this is so whenever the payload is not an array, which leaves no
  entry.
\<close>

theorem DeleteRecords_decode_error_skips:
  assumes "findExistingRecord L ex (rr_Name (RR_of L r)) (rr_Type (RR_of L r)) zone = Some i"
    and "rr_Type (RR_of L r) = ''A'' \<or> rr_Type (RR_of L r) = ''AAAA''"
    and "unmarshalError (Value (ex ! i))"
  shows "(\<not> list_ex (\<lambda>v. a_IP v = rr_Data (RR_of L r)) (decodeARecordValues (Value (ex ! i)))
           \<longrightarrow> DeleteRecords_step L S zone r ex del st = (Inr (ex, del), st))
       \<and> ((\<forall>xs. Value (ex ! i) \<noteq> ASlice xs)
           \<longrightarrow> DeleteRecords_step L S zone r ex del st = (Inr (ex, del), st))"
  using assms decode_not_array [of "Value (ex ! i)"]
  by (auto simp: step_address Let_def)

theorem DeleteRecords_decode_error_skips_witness:
  "findExistingRecord exLib [wwwBroken] (rr_Name (RR_of exLib addr2))
      (rr_Type (RR_of exLib addr2)) exZone = Some 0
   \<and> rr_Type (RR_of exLib addr2) = ''A''
   \<and> unmarshalError (Value wwwBroken)
   \<and> decodeARecordValues (Value wwwBroken) = [entry ''1.1.1.1'', zeroARecordValue]
   \<and> DeleteRecords_step exLib exServer exZone addr2 [wwwBroken] [] (start [wwwBroken])
       = (Inr ([wwwBroken], []), start [wwwBroken])
   \<and> findExistingRecord exLib [wwwNoArray] (rr_Name (RR_of exLib addr1))
      (rr_Type (RR_of exLib addr1)) exZone = Some 0
   \<and> unmarshalError (Value wwwNoArray)
   \<and> DeleteRecords_step exLib exServer exZone addr1 [wwwNoArray] [] (start [wwwNoArray])
       = (Inr ([wwwNoArray], []), start [wwwNoArray])"
proof -
  have fb: "findExistingRecord exLib [wwwBroken] (rr_Name (RR_of exLib addr2))
      (rr_Type (RR_of exLib addr2)) exZone = Some 0"
    by code_simp
  have fn: "findExistingRecord exLib [wwwNoArray] (rr_Name (RR_of exLib addr1))
      (rr_Type (RR_of exLib addr1)) exZone = Some 0"
    by code_simp
  have t: "rr_Type (RR_of exLib addr1) = ''A''" "rr_Type (RR_of exLib addr2) = ''A''"
    by code_simp+
  have d: "rr_Data (RR_of exLib addr2) = ''2.2.2.2''"
    by code_simp
  have ub: "unmarshalError (Value ([wwwBroken] ! 0))" and un: "unmarshalError (Value ([wwwNoArray] ! 0))"
    by code_simp+
  have cb: "decodeARecordValues (Value wwwBroken) = [entry ''1.1.1.1'', zeroARecordValue]"
    by code_simp
  have nb: "\<not> list_ex (\<lambda>v. a_IP v = rr_Data (RR_of exLib addr2))
              (decodeARecordValues (Value ([wwwBroken] ! 0)))"
    by (simp add: d cb entry_def zeroARecordValue_def)
  have na: "\<forall>xs. Value ([wwwNoArray] ! 0) \<noteq> ASlice xs"
    by (simp add: wwwNoArray_def providerRecord_def)
  have r1: "DeleteRecords_step exLib exServer exZone addr2 [wwwBroken] [] (start [wwwBroken])
       = (Inr ([wwwBroken], []), start [wwwBroken])"
    using DeleteRecords_decode_error_skips [OF fb _ ub, of exServer "[]" "start [wwwBroken]"] t nb
    by blast
  have r2: "DeleteRecords_step exLib exServer exZone addr1 [wwwNoArray] [] (start [wwwNoArray])
       = (Inr ([wwwNoArray], []), start [wwwNoArray])"
    using DeleteRecords_decode_error_skips [OF fn _ un, of exServer "[]" "start [wwwNoArray]"] t na
    by blast
  from ub un have ub': "unmarshalError (Value wwwBroken)" and un': "unmarshalError (Value wwwNoArray)"
    by simp_all
  from fb t(2) ub' cb r1 fn un' r2 show ?thesis by blast
qed

text \<open>
  The claim as stated fails when the decoding fails on a part of an array: the entries
  decoded before and after the mismatch are there. For the payload
  \<^verbatim>\<open>[{"ip": "1.1.1.1"}, "x"]\<close> the decoding reports an error and leaves the entry for
  1.1.1.1 and a zero entry, and the deletion of 1.1.1.1 sends an update.
\<close>

theorem DeleteRecords_decode_error_update_counterexample:
  "findExistingRecord exLib [wwwBroken] (rr_Name (RR_of exLib addr1))
      (rr_Type (RR_of exLib addr1)) exZone = Some 0
   \<and> unmarshalError (Value wwwBroken)
   \<and> DeleteRecords exLib exServer exZone [addr1] (start [wwwBroken])
       = Some (Inl PanicTypeAssertion,
               \<lparr>world = [providerRecord ''1'' ''A'' ''www'' (ASlice [AMap [(''ip'', AString [])]])],
                calls = [ListCall exZone 1,
                         UpdateCall exZone ''1''
                           (providerRecord ''1'' ''A'' ''www'' (VARecords [zeroARecordValue]))]\<rparr>)"
  by code_simp

subsection \<open>Setting\<close>

lemma matchedIDs_Nil: "matchedIDs L ex zone [] = []"
  by (simp add: matchedIDs_def map_filter_simps)

lemma matchedIDs_Cons:
  "matchedIDs L ex zone (r # rs) =
     (case findExistingRecord L ex (rr_Name (RR_of L r)) (rr_Type (RR_of L r)) zone of
        None \<Rightarrow> matchedIDs L ex zone rs
      | Some i \<Rightarrow> ID (ex ! i) # matchedIDs L ex zone rs)"
  by (simp add: matchedIDs_def map_filter_simps split: option.splits)

lemma SetRecords_loop_deleteAll:
  "SetRecords_loop L S zone ex records st = deleteAll S zone (matchedIDs L ex zone records) st"
proof (induction records arbitrary: st)
  case Nil
  then show ?case by (simp add: matchedIDs_Nil)
next
  case (Cons r rs)
  then show ?case
    by (simp add: matchedIDs_Cons split: option.splits prod.splits sum.splits)
qed

lemma deleteAll_calls:
  "deleteAll S zone ids st = (Inr u, st') \<Longrightarrow> calls st' = calls st @ map (DeleteCall zone) ids"
proof (induction ids arbitrary: st)
  case Nil
  then show ?case by simp
next
  case (Cons recordID ids)
  obtain res st1 where d: "deleteRecord S zone recordID st = (res, st1)"
    by (cases "deleteRecord S zone recordID st")
  with Cons.prems obtain result where res: "res = Inr result"
    and rest: "deleteAll S zone ids st1 = (Inr u, st')"
    by (cases res) auto
  from d have "calls st1 = calls st @ [DeleteCall zone recordID]"
    using deleteRecord_calls [of S zone recordID st] by simp
  with Cons.IH [OF rest] show ?case by simp
qed

lemma AppendRecords_loop_append:
  "AppendRecords_loop L S zone (xs @ ys) added st =
     (case AppendRecords_loop L S zone xs added st of
        (Inl err, st') \<Rightarrow> (Inl err, st')
      | (Inr added', st') \<Rightarrow> AppendRecords_loop L S zone ys added' st')"
  by (induction xs arbitrary: added st) (auto split: prod.splits sum.splits)

text \<open>
  The structure of \<^verbatim>\<open>SetRecords\<close>. When the listing returns, it deletes, input by input
  and in this order, the existing record that each input matches by name and type in that
  listing, the record as a whole. If a deletion fails, the call returns that error and no
  records, and nothing further is requested. If none fails, exactly these deletions have
  been requested and the result of the call is the result of \<^verbatim>\<open>AppendRecords\<close> on all
  the inputs. In \<^verbatim>\<open>AppendRecords\<close>, a creation that fails ends the call with that error
  and no records.
\<close>

lemma SetRecords_deletes_then_appends:
  assumes "getRecords S zone st = Some (Inr ex, st1)"
  shows "(case deleteAll S zone (matchedIDs L ex zone records) st1 of
            (Inl err, st2) \<Rightarrow> SetRecords L S zone records st = Some (Inl err, st2)
          | (Inr u, st2) \<Rightarrow>
              SetRecords L S zone records st = Some (AppendRecords L S zone records st2)
              \<and> calls st2 = calls st1 @ map (DeleteCall zone) (matchedIDs L ex zone records))
       \<and> (AppendRecords L S zone xs sta = (Inr added, stm)
            \<and> createRecord L S zone x stm = (Inl err', st')
          \<longrightarrow> AppendRecords L S zone (xs @ x # rs) sta = (Inl err', st'))"
proof
  show "case deleteAll S zone (matchedIDs L ex zone records) st1 of
            (Inl err, st2) \<Rightarrow> SetRecords L S zone records st = Some (Inl err, st2)
          | (Inr u, st2) \<Rightarrow>
              SetRecords L S zone records st = Some (AppendRecords L S zone records st2)
              \<and> calls st2 = calls st1 @ map (DeleteCall zone) (matchedIDs L ex zone records)"
    using assms
    by (auto simp: SetRecords_def SetRecords_loop_deleteAll dest: deleteAll_calls
        split: prod.splits sum.splits)
  show "AppendRecords L S zone xs sta = (Inr added, stm)
            \<and> createRecord L S zone x stm = (Inl err', st')
          \<longrightarrow> AppendRecords L S zone (xs @ x # rs) sta = (Inl err', st')"
    by (simp add: AppendRecords_def AppendRecords_loop_append)
qed

text \<open>
  What a creation asks the provider for does not depend on the record: the body of the
  request is the empty object.
\<close>

lemma createRecord_sends_empty_object:
  "createRecord L S zone r st =
     (case sv_create S (world st) zone EmptyObject of
        (res, w) \<Rightarrow> (res, \<lparr>world = w, calls = calls st @ [CreateCall zone EmptyObject]\<rparr>))"
  by (simp add: createRecord_def)

text \<open>
  \<^bold>\<open>C4\<close>. The code departs from the claim. \<^verbatim>\<open>SetRecords\<close> deletes the existing record
  that an input matches and delegates to \<^verbatim>\<open>AppendRecords\<close>, as the claim says, but the
  delegation does not create the desired state: \<^verbatim>\<open>createRecord\<close> hands \<^verbatim>\<open>newRequest\<close> a
  \<^verbatim>\<open>bytes.Reader\<close>, which is marshalled once more, so the creation is asked for with the
  body \<^verbatim>\<open>{}\<close> and the record never reaches the provider (\<^verbatim>\<open>updateRecord\<close>, the sibling,
  hands over the record itself). Setting the address 1.1.1.1 for \<^verbatim>\<open>www\<close>, which has an
  A record, deletes that record and creates nothing.
\<close>

theorem SetRecords_creates_with_empty_body:
  "SetRecords exLib exServer exZone [addr1] (start [wwwOneIP])
     = Some (Inl (TransportError ''unprocessable''),
             \<lparr>world = [],
              calls = [ListCall exZone 1, DeleteCall exZone ''1'',
                       CreateCall exZone EmptyObject]\<rparr>)"
  by code_simp

end
